theory Spec2Isabelle
  imports Complex_Main "HOL-Library.Sublist"
begin

section \<open>Data model\<close>

text \<open>
  One row of the CSV table read by \<^verbatim>\<open>pd.read_csv\<close>. The columns \<^verbatim>\<open>Fertility\<close>,
  \<^verbatim>\<open>lifeExp\<close>, \<^verbatim>\<open>pop\<close> and \<^verbatim>\<open>ID\<close> may hold pandas' missing value (NaN), which is
  \<open>None\<close> here. The program never computes with the numeric cells, it only tests
  them for missingness and copies them, so their type is the parameter \<open>'v\<close>.
  \<^verbatim>\<open>Country\<close>, \<^verbatim>\<open>Region\<close> and \<^verbatim>\<open>Year\<close> are taken as present in every row.
\<close>

record 'v row =
  Country :: string
  Region :: string
  Year :: int
  Fertility :: "'v option"
  lifeExp :: "'v option"
  pop :: "'v option"
  ID :: "string option"

text \<open>The rows of a DataFrame, in the order of its index.\<close>

type_synonym 'v frame = "'v row list"

text \<open>A Series (one column) is the list of its cells, in the same order.\<close>

type_synonym 'a series = "'a option list"

section \<open>The pandas operations used by \<^verbatim>\<open>load_data\<close>\<close>

text \<open>
  \<^verbatim>\<open>data.dropna(subset=['lifeExp', 'Fertility'], inplace=True)\<close>: a row stays when
  neither of the two cells is missing; the rows that stay keep their order.
\<close>

definition dropna :: "'v frame \<Rightarrow> 'v frame" where
  "dropna data = filter (\<lambda>r. lifeExp r \<noteq> None \<and> Fertility r \<noteq> None) data"

text \<open>
  \<^verbatim>\<open>data.groupby('Country')['pop'].ffill()\<close>: the result has one cell per row of
  \<open>data\<close>, in the order of \<open>data\<close>; a missing cell takes the last cell seen so far
  that is not missing among the rows of the same \<^verbatim>\<open>Country\<close>. The scan
  carries, for every group key, the last known value of that group. The rows are
  visited in the order of the frame: nothing sorts them by \<^verbatim>\<open>Year\<close>.
\<close>

fun groupby_ffill_from :: "(string \<rightharpoonup> 'v) \<Rightarrow> 'v frame \<Rightarrow> 'v series" where
  "groupby_ffill_from seen [] = []"
| "groupby_ffill_from seen (r # rs) =
     (case pop r of
        Some v \<Rightarrow> Some v # groupby_ffill_from (seen(Country r \<mapsto> v)) rs
      | None \<Rightarrow> seen (Country r) # groupby_ffill_from seen rs)"

definition groupby_ffill :: "'v frame \<Rightarrow> 'v series" where
  "groupby_ffill data = groupby_ffill_from Map.empty data"

text \<open>
  \<^verbatim>\<open>.bfill()\<close> is called on the Series that \<^verbatim>\<open>ffill\<close> returned, which is no longer
  grouped: a missing cell takes the next cell below it that is not missing,
  whatever row that cell belongs to.
\<close>

fun bfill :: "'a series \<Rightarrow> 'a series" where
  "bfill [] = []"
| "bfill (Some v # xs) = Some v # bfill xs"
| "bfill (None # xs) = (case bfill xs of [] \<Rightarrow> [None] | y # ys \<Rightarrow> y # y # ys)"

text \<open>
  \<^verbatim>\<open>data['pop'] = ...\<close>: the Series has the index of \<open>data\<close>, so the assignment
  replaces the cell of each row by the cell at the same position.
\<close>

definition assign_pop :: "'v frame \<Rightarrow> 'v series \<Rightarrow> 'v frame" where
  "assign_pop data col = map (\<lambda>(r, p). r\<lparr>pop := p\<rparr>) (zip data col)"

text \<open>\<^verbatim>\<open>data['ID'] = data['ID'].fillna('Unknown')\<close>.\<close>

definition fillna_ID :: "'v frame \<Rightarrow> 'v frame" where
  "fillna_ID data =
     map (\<lambda>r. r\<lparr>ID := Some (case ID r of None \<Rightarrow> ''Unknown'' | Some s \<Rightarrow> s)\<rparr>) data"

text \<open>Lines 18 to 23 of \<^verbatim>\<open>load_data\<close>: the cleaning of the table that was read.\<close>

definition clean_data :: "'v frame \<Rightarrow> 'v frame" where
  "clean_data raw =
     (let data = dropna raw;
          data = assign_pop data (bfill (groupby_ffill data));
          data = fillna_ID data
      in data)"

text \<open>
  \<^verbatim>\<open>pd.read_csv\<close> belongs to pandas, not to this program, and reads the file
  system: it is a parameter of the model. It either raises an exception, named
  by its Python class, or returns a DataFrame: the column names of the header line
  and the rows. The fields of a row for a column that the file does not have are
  never read: \<^verbatim>\<open>load_data\<close> fails before it would read them.
\<close>

datatype exn = Exn string

record 'v dataframe =
  header :: "string list"
  rows :: "'v frame"

type_synonym 'v reader = "string \<Rightarrow> exn + 'v dataframe"

text \<open>
  \<^verbatim>\<open>load_data\<close> has no \<^verbatim>\<open>try\<close>/\<^verbatim>\<open>except\<close>: an exception of \<^verbatim>\<open>pd.read_csv\<close> (line 16)
  leaves \<^verbatim>\<open>load_data\<close> as it is, and so does the \<^verbatim>\<open>KeyError\<close> that pandas raises
  when a column named by the program is not in the table:
  \<^verbatim>\<open>dropna(subset=['lifeExp', 'Fertility'])\<close> (line 18),
  \<^verbatim>\<open>groupby('Country')['pop']\<close> (line 20), \<^verbatim>\<open>data['ID']\<close> (line 22).
  Otherwise the DataFrame is returned with its rows cleaned.
\<close>

definition load_data :: "'v reader \<Rightarrow> string \<Rightarrow> exn + 'v dataframe" where
  "load_data read_csv filepath =
     (case read_csv filepath of
        Inl e \<Rightarrow> Inl e
      | Inr df \<Rightarrow>
          if \<not> set [''lifeExp'', ''Fertility''] \<subseteq> set (header df) then Inl (Exn ''KeyError'')
          else if ''Country'' \<notin> set (header df) \<or> ''pop'' \<notin> set (header df)
            then Inl (Exn ''KeyError'')
          else if ''ID'' \<notin> set (header df) then Inl (Exn ''KeyError'')
          else Inr (df\<lparr>rows := clean_data (rows df)\<rparr>))"

section \<open>The slider callback\<close>

text \<open>
  \<^verbatim>\<open>f"... in {yr}"\<close> formats the integer \<open>yr\<close> as Python's \<^verbatim>\<open>str\<close> does: decimal
  digits, most significant first, no leading zero, a minus sign when negative.
\<close>

definition digit_char :: "nat \<Rightarrow> char" where
  "digit_char d = ''0123456789'' ! d"

fun digits :: "nat \<Rightarrow> string" where
  "digits n = (if n < 10 then [digit_char n] else digits (n div 10) @ [digit_char (n mod 10)])"

declare digits.simps [simp del]

definition str_int :: "int \<Rightarrow> string" where
  "str_int i = (if i < 0 then CHR ''-'' # digits (nat (- i)) else digits (nat i))"

text \<open>
  \<^verbatim>\<open>new_data.to_dict(orient='list')\<close>: the dictionary that maps each column name to
  the list of the cells of that column, in row order.
\<close>

record 'v columns =
  Country_col :: "string list"
  Region_col :: "string list"
  Year_col :: "int list"
  Fertility_col :: "'v option list"
  lifeExp_col :: "'v option list"
  pop_col :: "'v option list"
  ID_col :: "string option list"

definition to_dict_list :: "'v frame \<Rightarrow> 'v columns" where
  "to_dict_list df =
     \<lparr>Country_col = map Country df, Region_col = map Region df, Year_col = map Year df,
      Fertility_col = map Fertility df, lifeExp_col = map lifeExp df,
      pop_col = map pop df, ID_col = map ID df\<rparr>"

text \<open>The records a column dictionary shows: record \<open>i\<close> has cell \<open>i\<close> of every column.\<close>

definition records :: "'v columns \<Rightarrow> 'v frame" where
  "records c =
     map (\<lambda>i. \<lparr>Country = Country_col c ! i, Region = Region_col c ! i, Year = Year_col c ! i,
               Fertility = Fertility_col c ! i, lifeExp = lifeExp_col c ! i,
               pop = pop_col c ! i, ID = ID_col c ! i\<rparr>)
       [0 ..< length (Year_col c)]"

text \<open>
  What \<^verbatim>\<open>update_plot\<close> reads and writes: the slider's value and the full
  DataFrame \<^verbatim>\<open>data\<close> (read), \<^verbatim>\<open>source.data\<close> and \<^verbatim>\<open>plot.title.text\<close> (written).
\<close>

record 'v session =
  slider_value :: int
  data :: "'v frame"
  source_data :: "'v columns"
  plot_title_text :: string

text \<open>The callback ignores its three arguments and reads the slider.\<close>

definition update_plot :: "string \<Rightarrow> int \<Rightarrow> int \<Rightarrow> 'v session \<Rightarrow> 'v session" where
  "update_plot attr old new s =
     (let yr = slider_value s;
          new_data = filter (\<lambda>r. Year r = yr) (data s)
      in s\<lparr>source_data := to_dict_list new_data,
           plot_title_text := ''Life Expectancy vs Fertility in '' @ str_int yr\<rparr>)"

section \<open>Notions used to state the properties\<close>

text \<open>The last known (not missing) \<^verbatim>\<open>pop\<close> among the rows of Country \<open>c\<close> in a list of rows.\<close>

fun last_known :: "string \<Rightarrow> 'v frame \<Rightarrow> 'v option" where
  "last_known c [] = None"
| "last_known c (r # rs) =
     (case last_known c rs of
        Some v \<Rightarrow> Some v
      | None \<Rightarrow> if Country r = c then pop r else None)"

text \<open>The first known cell of a Series.\<close>

fun next_known :: "'a series \<Rightarrow> 'a option" where
  "next_known [] = None"
| "next_known (Some v # xs) = Some v"
| "next_known (None # xs) = next_known xs"

text \<open>The number a string of decimal digits denotes.\<close>

definition nat_of_digits :: "string \<Rightarrow> nat" where
  "nat_of_digits ds = foldl (\<lambda>a c. 10 * a + (of_char c - 48)) 0 ds"

text \<open>
  Decimal notation, independently of how the program produces it. A character is
  a digit when its code is between those of \<open>0\<close> and \<open>9\<close>. The numeral of a natural
  number has at least one digit, only digits, and no leading zero unless it is
  \<open>''0''\<close> itself. The numeral of an integer is that of a natural number, or a minus
  sign followed by the numeral of a positive one. \<open>int_of_decimal\<close> reads a numeral
  back, as Python's \<^verbatim>\<open>int\<close> does.
\<close>

definition is_digit :: "char \<Rightarrow> bool" where
  "is_digit c = (48 \<le> (of_char c :: nat) \<and> (of_char c :: nat) \<le> 57)"

definition canonical_nat :: "string \<Rightarrow> bool" where
  "canonical_nat ds =
     (ds \<noteq> [] \<and> list_all is_digit ds \<and> (length ds = 1 \<or> hd ds \<noteq> CHR ''0''))"

definition canonical_decimal :: "string \<Rightarrow> bool" where
  "canonical_decimal s =
     (if s \<noteq> [] \<and> hd s = CHR ''-'' then canonical_nat (tl s) \<and> tl s \<noteq> ''0''
      else canonical_nat s)"

definition int_of_decimal :: "string \<Rightarrow> int" where
  "int_of_decimal s =
     (if s \<noteq> [] \<and> hd s = CHR ''-'' then - int (nat_of_digits (tl s))
      else int (nat_of_digits s))"

text \<open>The columns that \<^verbatim>\<open>load_data\<close> names.\<close>

definition required_columns :: "string list" where
  "required_columns = [''lifeExp'', ''Fertility'', ''Country'', ''pop'', ''ID'']"

text \<open>
  The specification's fill of one Country group, in its words: sort the group by
  Year ascending (stable), scan forward carrying the last known value into each
  missing slot, then scan backward for the slots still missing.
\<close>

fun spec_ffill_from :: "'a option \<Rightarrow> 'a series \<Rightarrow> 'a series" where
  "spec_ffill_from c [] = []"
| "spec_ffill_from c (Some v # xs) = Some v # spec_ffill_from (Some v) xs"
| "spec_ffill_from c (None # xs) = c # spec_ffill_from c xs"

definition spec_fill_group :: "'v frame \<Rightarrow> 'v series" where
  "spec_fill_group g = bfill (spec_ffill_from None (map pop (sort_key Year g)))"

text \<open>The Country group \<open>c\<close> of a table: its rows, in table order.\<close>

definition group_of :: "string \<Rightarrow> 'v frame \<Rightarrow> 'v frame" where
  "group_of c df = filter (\<lambda>r. Country r = c) df"

section \<open>Example tables\<close>

definition example_row :: "string \<Rightarrow> int \<Rightarrow> real option \<Rightarrow> real option \<Rightarrow> real option
    \<Rightarrow> string option \<Rightarrow> real row" where
  "example_row c y f l p i =
     \<lparr>Country = c, Region = ''Region'', Year = y, Fertility = f, lifeExp = l, pop = p, ID = i\<rparr>"

text \<open>Two rows of the same Country and Year, the first without life expectancy.\<close>

definition table_dropped :: "real frame" where
  "table_dropped =
     [example_row ''A'' 1964 (Some 5) None (Some 10) (Some ''a''),
      example_row ''A'' 1964 (Some 3) (Some 60) (Some 10) None]"

text \<open>Country B with a known population in 1965 only.\<close>

definition table_fill :: "real frame" where
  "table_fill =
     [example_row ''B'' 1964 (Some 5) (Some 60) None (Some ''b''),
      example_row ''B'' 1965 (Some 5) (Some 61) (Some 100) None,
      example_row ''B'' 1966 (Some 4) (Some 62) None (Some ''b'')]"

text \<open>Country A has no known population at all; a row of Country B follows it.\<close>

definition table_all_missing :: "real frame" where
  "table_all_missing =
     [example_row ''A'' 1964 (Some 5) (Some 60) None (Some ''a''),
      example_row ''B'' 1964 (Some 4) (Some 70) (Some 100) (Some ''b'')]"

text \<open>One Country whose rows are not in Year order.\<close>

definition table_unsorted :: "real frame" where
  "table_unsorted =
     [example_row ''A'' 1964 (Some 5) (Some 60) (Some 2) (Some ''a''),
      example_row ''A'' 1966 (Some 5) (Some 62) (Some 1) (Some ''a''),
      example_row ''A'' 1965 (Some 5) (Some 61) None (Some ''a'')]"

text \<open>The header line of a file with the seven columns.\<close>

definition csv_header :: "string list" where
  "csv_header = [''Country'', ''Region'', ''Year'', ''Fertility'', ''lifeExp'', ''pop'', ''ID'']"

text \<open>A file system without any file, as \<^verbatim>\<open>pd.read_csv\<close> sees it.\<close>

definition no_file :: "real reader" where
  "no_file path = Inl (Exn ''FileNotFoundError'')"

text \<open>A file system whose only file is \<^verbatim>\<open>gapminder.csv\<close>, holding \<open>table_fill\<close>.\<close>

definition one_file :: "real reader" where
  "one_file path =
     (if path = ''gapminder.csv'' then Inr \<lparr>header = csv_header, rows = table_fill\<rparr>
      else Inl (Exn ''FileNotFoundError''))"

text \<open>A file that can be read and has one row, but no column \<^verbatim>\<open>pop\<close>.\<close>

definition file_without_pop :: "real reader" where
  "file_without_pop path =
     Inr \<lparr>header = [''Country'', ''Region'', ''Year'', ''Fertility'', ''lifeExp'', ''ID''],
          rows = [example_row ''A'' 1964 (Some 5) (Some 60) None (Some ''a'')]\<rparr>"

text \<open>
  A cell as \<^verbatim>\<open>pd.read_csv\<close> delivers it when it is not missing: a number, or the
  text of the field when the field does not parse as a number.
\<close>

datatype cell_value = Num real | Text string

text \<open>A file with the seven columns and one row, whose \<^verbatim>\<open>Fertility\<close> field is \<^verbatim>\<open>abc\<close>.\<close>

definition table_malformed :: "cell_value frame" where
  "table_malformed =
     [\<lparr>Country = ''A'', Region = ''Region'', Year = 1964, Fertility = Some (Text ''abc''),
       lifeExp = Some (Num 60), pop = Some (Num 10), ID = Some ''a''\<rparr>]"

definition malformed_file :: "cell_value reader" where
  "malformed_file path = Inr \<lparr>header = csv_header, rows = table_malformed\<rparr>"

definition example_session :: "real session" where
  "example_session =
     \<lparr>slider_value = 1964, data = clean_data table_fill,
      source_data = to_dict_list [], plot_title_text = []\<rparr>"

text \<open>A session whose data has no row of the year the slider shows.\<close>

definition session_no_1964 :: "real session" where
  "session_no_1964 =
     \<lparr>slider_value = 1964,
      data = [example_row ''B'' 1965 (Some 5) (Some 61) (Some 100) (Some ''Unknown''),
              example_row ''B'' 1966 (Some 4) (Some 62) (Some 100) (Some ''b'')],
      source_data = to_dict_list [example_row ''B'' 1965 (Some 5) (Some 61) (Some 100) (Some ''Unknown'')],
      plot_title_text = ''Life Expectancy vs Fertility in 1965''\<rparr>"

section \<open>Basic facts\<close>

lemma length_groupby_ffill_from [simp]:
  "length (groupby_ffill_from seen rs) = length rs"
  by (induction rs arbitrary: seen) (auto split: option.splits)

lemma length_groupby_ffill [simp]: "length (groupby_ffill rs) = length rs"
  by (simp add: groupby_ffill_def)

lemma length_bfill [simp]: "length (bfill xs) = length xs"
  by (induction xs rule: bfill.induct) (auto split: list.splits)

lemma length_assign_pop [simp]:
  "length col = length df \<Longrightarrow> length (assign_pop df col) = length df"
  by (simp add: assign_pop_def)

lemma clean_data_unfold:
  "clean_data raw =
     fillna_ID (assign_pop (dropna raw) (bfill (groupby_ffill (dropna raw))))"
  by (simp add: clean_data_def Let_def)

lemma length_clean_data: "length (clean_data raw) = length (dropna raw)"
  by (simp add: clean_data_unfold fillna_ID_def)

lemma nth_clean_data:
  assumes "i < length (dropna raw)"
  shows "clean_data raw ! i =
           (dropna raw ! i)
             \<lparr>pop := bfill (groupby_ffill (dropna raw)) ! i,
              ID := Some (case ID (dropna raw ! i) of None \<Rightarrow> ''Unknown'' | Some s \<Rightarrow> s)\<rparr>"
  using assms by (simp add: clean_data_unfold fillna_ID_def assign_pop_def)

lemma set_dropna:
  "set (dropna raw) = {r \<in> set raw. lifeExp r \<noteq> None \<and> Fertility r \<noteq> None}"
  by (simp add: dropna_def)

lemma clean_data_frame_nth:
  assumes "i < length (dropna raw)"
  shows "Country (clean_data raw ! i) = Country (dropna raw ! i)"
    and "Region (clean_data raw ! i) = Region (dropna raw ! i)"
    and "Year (clean_data raw ! i) = Year (dropna raw ! i)"
    and "Fertility (clean_data raw ! i) = Fertility (dropna raw ! i)"
    and "lifeExp (clean_data raw ! i) = lifeExp (dropna raw ! i)"
  using assms by (simp_all add: nth_clean_data)

lemma clean_data_ID_nth:
  assumes "i < length (dropna raw)"
  shows "ID (clean_data raw ! i) =
           Some (case ID (dropna raw ! i) of None \<Rightarrow> ''Unknown'' | Some s \<Rightarrow> s)"
  using assms by (simp add: nth_clean_data)

lemma clean_data_pop_nth:
  assumes "i < length (dropna raw)"
  shows "pop (clean_data raw ! i) = bfill (groupby_ffill (dropna raw)) ! i"
  using assms by (simp add: nth_clean_data)

lemma clean_data_untouched_columns:
  "map (\<lambda>r. (Country r, Region r, Year r, Fertility r, lifeExp r)) (clean_data raw) =
   map (\<lambda>r. (Country r, Region r, Year r, Fertility r, lifeExp r)) (dropna raw)"
proof (rule nth_equalityI)
  show "length (map (\<lambda>r. (Country r, Region r, Year r, Fertility r, lifeExp r)) (clean_data raw)) =
    length (map (\<lambda>r. (Country r, Region r, Year r, Fertility r, lifeExp r)) (dropna raw))"
    by (simp add: length_clean_data)
next
  fix i
  assume "i < length (map (\<lambda>r. (Country r, Region r, Year r, Fertility r, lifeExp r)) (clean_data raw))"
  then have i: "i < length (dropna raw)" by (simp add: length_clean_data)
  then show "map (\<lambda>r. (Country r, Region r, Year r, Fertility r, lifeExp r)) (clean_data raw) ! i =
    map (\<lambda>r. (Country r, Region r, Year r, Fertility r, lifeExp r)) (dropna raw) ! i"
    by (simp add: length_clean_data clean_data_frame_nth)
qed

lemma present_row_retained:
  assumes "r \<in> set raw" and "Fertility r \<noteq> None" and "lifeExp r \<noteq> None"
  shows "\<exists>r' \<in> set (clean_data raw).
           Country r' = Country r \<and> Region r' = Region r \<and> Year r' = Year r \<and>
           Fertility r' = Fertility r \<and> lifeExp r' = lifeExp r"
proof -
  from assms have "r \<in> set (dropna raw)" by (simp add: set_dropna)
  then obtain i where i: "i < length (dropna raw)" and r: "dropna raw ! i = r"
    by (auto simp: in_set_conv_nth)
  from i have "clean_data raw ! i \<in> set (clean_data raw)"
    by (simp add: length_clean_data)
  moreover from i r have "Country (clean_data raw ! i) = Country r \<and>
      Region (clean_data raw ! i) = Region r \<and> Year (clean_data raw ! i) = Year r \<and>
      Fertility (clean_data raw ! i) = Fertility r \<and> lifeExp (clean_data raw ! i) = lifeExp r"
    by (simp add: clean_data_frame_nth)
  ultimately show ?thesis by blast
qed

section \<open>Forward and backward fill\<close>

lemma last_known_append:
  "last_known c (xs @ ys) =
     (case last_known c ys of Some v \<Rightarrow> Some v | None \<Rightarrow> last_known c xs)"
  by (induction xs) (auto split: option.splits)

lemma last_known_None_iff:
  "last_known c rs = None \<longleftrightarrow> (\<forall>r \<in> set rs. Country r = c \<longrightarrow> pop r = None)"
  by (induction rs) (auto split: option.splits)

lemma groupby_ffill_from_nth:
  assumes "i < length rs"
  shows "groupby_ffill_from seen rs ! i =
           (case last_known (Country (rs ! i)) (take (Suc i) rs) of
              Some v \<Rightarrow> Some v
            | None \<Rightarrow> seen (Country (rs ! i)))"
  using assms
proof (induction rs arbitrary: seen i)
  case Nil
  then show ?case by simp
next
  case (Cons r rs)
  show ?case
  proof (cases i)
    case 0
    then show ?thesis by (simp split: option.splits)
  next
    case (Suc j)
    with Cons.prems have j: "j < length rs" by simp
    show ?thesis
    proof (cases "pop r")
      case None
      with Suc show ?thesis
        by (simp add: Cons.IH [OF j] split: option.splits)
    next
      case (Some v)
      with Suc show ?thesis
        by (simp add: Cons.IH [OF j] split: option.splits)
    qed
  qed
qed

lemma groupby_ffill_nth:
  assumes "i < length rs"
  shows "groupby_ffill rs ! i = last_known (Country (rs ! i)) (take (Suc i) rs)"
  using groupby_ffill_from_nth [OF assms, of Map.empty]
  by (simp add: groupby_ffill_def split: option.splits)

lemma bfill_nth:
  assumes "i < length xs"
  shows "bfill xs ! i = next_known (drop i xs)"
  using assms
proof (induction xs arbitrary: i rule: bfill.induct)
  case 1
  then show ?case by simp
next
  case (2 v xs)
  then show ?case by (cases i) simp_all
next
  case (3 xs)
  show ?case
  proof (cases i)
    case 0
    show ?thesis
    proof (cases xs)
      case Nil
      with 0 show ?thesis by simp
    next
      case (Cons y ys)
      then have "0 < length xs" by simp
      from "3.IH" [OF this] have "bfill xs ! 0 = next_known xs" by simp
      moreover from Cons have "bfill xs \<noteq> []" by (cases y) (auto split: list.splits)
      ultimately show ?thesis using 0 by (auto split: list.splits)
    qed
  next
    case (Suc j)
    with "3.prems" have j: "j < length xs" by simp
    then have "bfill xs \<noteq> []" by (metis length_bfill length_0_conv not_less_zero)
    with Suc "3.IH" [OF j] show ?thesis by (auto split: list.splits)
  qed
qed

lemma next_known_None_iff: "next_known xs = None \<longleftrightarrow> (\<forall>x \<in> set xs. x = None)"
  by (induction xs rule: next_known.induct) auto

lemma next_known_first:
  assumes "m < length xs" and "xs ! m = Some v" and "\<forall>j < m. xs ! j = None"
  shows "next_known xs = Some v"
  using assms
proof (induction xs arbitrary: m rule: next_known.induct)
  case 1
  then show ?case by simp
next
  case (2 w xs)
  then show ?case by (cases m) auto
next
  case (3 xs)
  show ?case
  proof (cases m)
    case 0
    with "3.prems" show ?thesis by simp
  next
    case (Suc k)
    with "3.prems" have "k < length xs" "xs ! k = Some v" "\<forall>j < k. xs ! j = None"
      by auto
    from "3.IH" [OF this] show ?thesis by simp
  qed
qed

lemma bfill_keeps_known:
  assumes "i < length xs" and "xs ! i = Some v"
  shows "bfill xs ! i = Some v"
proof -
  from assms have "drop i xs = Some v # drop (Suc i) xs"
    by (metis Cons_nth_drop_Suc)
  with assms show ?thesis by (simp add: bfill_nth)
qed

lemma bfill_known_later:
  assumes "i \<le> k" and "k < length xs" and "xs ! k \<noteq> None"
  shows "bfill xs ! i \<noteq> None"
proof -
  from assms have "drop i xs ! (k - i) = xs ! k" and "k - i < length (drop i xs)"
    by simp_all
  then have "xs ! k \<in> set (drop i xs)"
    by (metis nth_mem)
  with assms show ?thesis
    by (auto simp: bfill_nth next_known_None_iff)
qed

lemma bfill_first_later:
  assumes "i \<le> k" and "k < length xs" and "xs ! k = Some v"
    and "\<forall>j. i \<le> j \<and> j < k \<longrightarrow> xs ! j = None"
  shows "bfill xs ! i = Some v"
proof -
  from assms have "next_known (drop i xs) = Some v"
    by (intro next_known_first [where m = "k - i"]) auto
  with assms show ?thesis by (simp add: bfill_nth)
qed

lemma last_known_take_Suc_known:
  assumes "i < length rs" and "pop (rs ! i) = Some v"
  shows "last_known (Country (rs ! i)) (take (Suc i) rs) = Some v"
  using assms by (simp add: take_Suc_conv_app_nth last_known_append)

lemma last_known_prefix_known:
  assumes "k \<le> i" and "i < length rs" and "Country (rs ! k) = c" and "pop (rs ! k) \<noteq> None"
  shows "last_known c (take (Suc i) rs) \<noteq> None"
proof -
  from assms have "take (Suc i) rs ! k = rs ! k" and "k < length (take (Suc i) rs)"
    by simp_all
  then have "rs ! k \<in> set (take (Suc i) rs)" by (metis nth_mem)
  with assms show ?thesis by (auto simp: last_known_None_iff)
qed

lemma last_known_stays_None:
  assumes "last_known c (take (Suc i) rs) = None" and "i \<le> j" and "j < length rs"
    and "\<forall>m. i < m \<and> m \<le> j \<longrightarrow> pop (rs ! m) = None"
  shows "last_known c (take (Suc j) rs) = None"
proof -
  have "pop r = None" if "r \<in> set (take (Suc j) rs)" and "Country r = c" for r
  proof -
    from that(1) obtain m where m: "m < Suc j" "m < length rs" "r = rs ! m"
      by (auto simp: in_set_conv_nth)
    show ?thesis
    proof (cases "m \<le> i")
      case True
      with assms m have "take (Suc i) rs ! m = rs ! m" and "m < length (take (Suc i) rs)"
        by simp_all
      then have "rs ! m \<in> set (take (Suc i) rs)" by (metis nth_mem)
      with assms(1) m that(2) show ?thesis by (auto simp: last_known_None_iff)
    next
      case False
      with assms(4) m show ?thesis by simp
    qed
  qed
  then show ?thesis by (auto simp: last_known_None_iff)
qed

section \<open>Facts about the slider callback\<close>

lemma records_to_dict_list: "records (to_dict_list df) = df"
  by (rule nth_equalityI) (simp_all add: records_def to_dict_list_def)

lemma digit_char_val:
  assumes "d < 10"
  shows "of_char (digit_char d) - 48 = d"
proof -
  from assms have "d \<in> {0, 1, 2, 3, 4, 5, 6, 7, 8, 9}" by auto
  then show ?thesis by (auto simp: digit_char_def)
qed

lemma nat_of_digits_snoc:
  "nat_of_digits (ds @ [c]) = 10 * nat_of_digits ds + (of_char c - 48)"
  by (simp add: nat_of_digits_def)

lemma nat_of_digits_digits: "nat_of_digits (digits n) = n"
proof (induction n rule: digits.induct)
  case (1 n)
  show ?case
  proof (cases "n < 10")
    case True
    then have "digits n = [digit_char n]" by (simp add: digits.simps)
    with True show ?thesis by (simp add: nat_of_digits_def digit_char_val)
  next
    case False
    then have "digits n = digits (n div 10) @ [digit_char (n mod 10)]"
      by (subst digits.simps) simp
    with False "1.IH" show ?thesis
      by (simp add: nat_of_digits_snoc digit_char_val)
  qed
qed

lemma digit_char_code:
  assumes "d < 10"
  shows "(of_char (digit_char d) :: nat) = 48 + d"
proof -
  from assms have "d \<in> {0, 1, 2, 3, 4, 5, 6, 7, 8, 9}" by auto
  then show ?thesis by (auto simp: digit_char_def)
qed

lemma is_digit_digit_char: "d < 10 \<Longrightarrow> is_digit (digit_char d)"
  by (simp add: is_digit_def digit_char_code)

lemma digit_char_zero_iff: "d < 10 \<Longrightarrow> digit_char d = CHR ''0'' \<longleftrightarrow> d = 0"
proof
  assume d: "d < 10" and z: "digit_char d = CHR ''0''"
  from z have "(of_char (digit_char d) :: nat) = of_char CHR ''0''" by simp
  with d show "d = 0" by (simp add: digit_char_code)
next
  assume "d = 0" then show "digit_char d = CHR ''0''" by (simp add: digit_char_def)
qed

lemma digits_small: "n < 10 \<Longrightarrow> digits n = [digit_char n]"
  by (simp add: digits.simps)

lemma digits_large: "\<not> n < 10 \<Longrightarrow> digits n = digits (n div 10) @ [digit_char (n mod 10)]"
  by (subst digits.simps) simp

lemma digits_not_Nil: "digits n \<noteq> []"
  by (cases "n < 10") (simp_all add: digits_small digits_large)

lemma digits_all_digit: "list_all is_digit (digits n)"
proof (induction n rule: digits.induct)
  case (1 n)
  then show ?case
    by (cases "n < 10") (simp_all add: digits_small digits_large is_digit_digit_char)
qed

lemma hd_digits_zero: "hd (digits n) = CHR ''0'' \<Longrightarrow> n = 0"
proof (induction n rule: digits.induct)
  case (1 n)
  show ?case
  proof (cases "n < 10")
    case True
    with "1.prems" show ?thesis by (simp add: digits_small digit_char_zero_iff)
  next
    case False
    with "1.prems" have "hd (digits (n div 10)) = CHR ''0''"
      by (simp add: digits_large digits_not_Nil)
    with False "1.IH" have "n div 10 = 0" by simp
    with False show ?thesis by simp
  qed
qed

lemma canonical_nat_digits: "canonical_nat (digits n)"
proof -
  have "length (digits n) = 1 \<or> hd (digits n) \<noteq> CHR ''0''"
  proof (cases "hd (digits n) = CHR ''0''")
    case True
    then have "n = 0" by (rule hd_digits_zero)
    then show ?thesis by (simp add: digits_small)
  next
    case False
    then show ?thesis by simp
  qed
  then show ?thesis by (simp add: canonical_nat_def digits_not_Nil digits_all_digit)
qed

lemma hd_digits_not_minus: "hd (digits n) \<noteq> CHR ''-''"
proof -
  from digits_all_digit [of n] digits_not_Nil [of n] have "is_digit (hd (digits n))"
    by (cases "digits n") simp_all
  then show ?thesis by (auto simp: is_digit_def)
qed

lemma digits_eq_zero: "digits n = ''0'' \<Longrightarrow> n = 0"
  using hd_digits_zero [of n] by simp

lemma canonical_decimal_str_int: "canonical_decimal (str_int i)"
proof (cases "i < 0")
  case True
  have "digits (nat (- i)) \<noteq> ''0''"
  proof
    assume "digits (nat (- i)) = ''0''"
    then have "nat (- i) = 0" by (rule digits_eq_zero)
    with True show False by simp
  qed
  with True show ?thesis
    by (simp add: canonical_decimal_def str_int_def canonical_nat_digits)
next
  case False
  then show ?thesis
    by (simp add: canonical_decimal_def str_int_def canonical_nat_digits
        hd_digits_not_minus digits_not_Nil)
qed

lemma int_of_decimal_str_int: "int_of_decimal (str_int i) = i"
proof (cases "i < 0")
  case True
  then show ?thesis by (simp add: int_of_decimal_def str_int_def nat_of_digits_digits)
next
  case False
  then show ?thesis
    by (simp add: int_of_decimal_def str_int_def nat_of_digits_digits hd_digits_not_minus)
qed

lemma digit_char_of_digit:
  assumes "is_digit c"
  shows "digit_char (of_char c - 48) = c"
proof -
  from assms have "(of_char c :: nat) - 48 < 10" and "48 \<le> (of_char c :: nat)"
    by (auto simp: is_digit_def)
  then have "(of_char (digit_char (of_char c - 48)) :: nat) = of_char c"
    by (simp add: digit_char_code)
  then have "char_of (of_char (digit_char (of_char c - 48)) :: nat) = char_of (of_char c :: nat)"
    by (rule arg_cong)
  then show ?thesis by (simp only: char_of_char)
qed

lemma digit_val_less: "is_digit c \<Longrightarrow> (of_char c :: nat) - 48 < 10"
  by (auto simp: is_digit_def)

lemma digit_val_pos:
  assumes "is_digit c" and "c \<noteq> CHR ''0''"
  shows "0 < (of_char c :: nat) - 48"
proof (rule ccontr)
  assume "\<not> 0 < (of_char c :: nat) - 48"
  with assms(1) have "(of_char c :: nat) = of_char CHR ''0''" by (simp add: is_digit_def)
  then have "char_of (of_char c :: nat) = char_of (of_char CHR ''0'' :: nat)" by (rule arg_cong)
  then have "c = CHR ''0''" by (simp only: char_of_char)
  with assms(2) show False by simp
qed

lemma nat_of_digits_pos:
  assumes "list_all is_digit ds" and "ds \<noteq> []" and "hd ds \<noteq> CHR ''0''"
  shows "0 < nat_of_digits ds"
  using assms
proof (induction ds rule: rev_induct)
  case Nil
  then show ?case by simp
next
  case (snoc c xs)
  show ?case
  proof (cases "xs = []")
    case True
    with snoc.prems have "is_digit c" and "c \<noteq> CHR ''0''" by simp_all
    then have "0 < (of_char c :: nat) - 48" by (rule digit_val_pos)
    with True show ?thesis by (simp add: nat_of_digits_def)
  next
    case False
    with snoc have "0 < nat_of_digits xs" by simp
    then show ?thesis by (simp add: nat_of_digits_snoc)
  qed
qed

lemma digits_nat_of_digits:
  assumes "canonical_nat ds"
  shows "digits (nat_of_digits ds) = ds"
  using assms
proof (induction ds rule: rev_induct)
  case Nil
  then show ?case by (simp add: canonical_nat_def)
next
  case (snoc c xs)
  from snoc.prems have dc: "is_digit c" and dx: "list_all is_digit xs"
    by (simp_all add: canonical_nat_def)
  let ?d = "(of_char c :: nat) - 48"
  from dc have d: "?d < 10" by (rule digit_val_less)
  show ?case
  proof (cases "xs = []")
    case True
    with d dc show ?thesis
      by (simp add: nat_of_digits_def digits_small digit_char_of_digit)
  next
    case False
    with snoc.prems have h: "hd xs \<noteq> CHR ''0''" by (simp add: canonical_nat_def)
    with False dx have cx: "canonical_nat xs" by (simp add: canonical_nat_def)
    from dx False h have p: "0 < nat_of_digits xs" by (rule nat_of_digits_pos)
    let ?n = "10 * nat_of_digits xs + ?d"
    from p have big: "\<not> ?n < 10" by simp
    from d have "?n div 10 = nat_of_digits xs" and "?n mod 10 = ?d" by simp_all
    with digits_large [OF big] snoc.IH [OF cx] dc show ?thesis
      by (simp add: nat_of_digits_snoc digit_char_of_digit)
  qed
qed

lemma str_int_int_of_decimal:
  assumes "canonical_decimal s"
  shows "str_int (int_of_decimal s) = s"
proof (cases "s \<noteq> [] \<and> hd s = CHR ''-''")
  case True
  with assms have c: "canonical_nat (tl s)" and z: "tl s \<noteq> ''0''"
    by (simp_all add: canonical_decimal_def)
  have h: "hd (tl s) \<noteq> CHR ''0''"
  proof
    assume "hd (tl s) = CHR ''0''"
    with c have "length (tl s) = 1" by (simp add: canonical_nat_def)
    with \<open>hd (tl s) = CHR ''0''\<close> have "tl s = ''0''" by (cases "tl s") simp_all
    with z show False by simp
  qed
  from c h have "0 < nat_of_digits (tl s)"
    by (intro nat_of_digits_pos) (simp_all add: canonical_nat_def)
  moreover from True have "s = CHR ''-'' # tl s" by (cases s) simp_all
  ultimately show ?thesis
    using True digits_nat_of_digits [OF c]
    by (simp add: int_of_decimal_def str_int_def)
next
  case False
  with assms have cn: "canonical_nat s" by (simp add: canonical_decimal_def)
  from False have "int_of_decimal s = int (nat_of_digits s)"
    unfolding int_of_decimal_def by (rule if_not_P)
  then show ?thesis
    by (simp add: str_int_def digits_nat_of_digits [OF cn])
qed

lemma str_int_1964: "str_int 1964 = ''1964''"
  by (simp add: str_int_def digits.simps digit_char_def)

section \<open>Properties of \<^verbatim>\<open>load_data\<close>\<close>

text \<open>
  C1 does not hold of the code: \<^verbatim>\<open>.bfill()\<close> runs over the whole column, not per
  Country. In \<open>table_all_missing\<close> the only row of Country A has no population and
  no other row of A has one, yet after cleaning it carries the population 100 of the
  row of Country B below it.
\<close>

theorem cross_country_backfill:
  "map pop (group_of ''A'' (dropna table_all_missing)) = [None] \<and>
   map Country (clean_data table_all_missing) = [''A'', ''B''] \<and>
   map pop (clean_data table_all_missing) = [Some 100, Some 100]"
  by (simp add: clean_data_unfold dropna_def groupby_ffill_def assign_pop_def
      fillna_ID_def table_all_missing_def example_row_def group_of_def)

text \<open>
  C2, as amended: in a Country group (of the retained rows) with at least one known
  \<^verbatim>\<open>pop\<close>, every row has a known \<^verbatim>\<open>pop\<close> after cleaning. A row that has a known
  value of its Country at or above it in the table gets the last such value (forward
  fill, in table order: the rows are not sorted by Year). A row that has none gets
  the first known value of its Country below it, when the rows in between all belong
  to that Country.
\<close>

theorem pop_filled_in_row_order:
  assumes i: "i < length (dropna raw)"
    and c: "c = Country (dropna raw ! i)"
    and known: "\<exists>k < length (dropna raw). Country (dropna raw ! k) = c \<and> pop (dropna raw ! k) \<noteq> None"
  shows "pop (clean_data raw ! i) \<noteq> None \<and>
    (\<forall>v. last_known c (take (Suc i) (dropna raw)) = Some v \<longrightarrow> pop (clean_data raw ! i) = Some v) \<and>
    (\<forall>k v. last_known c (take (Suc i) (dropna raw)) = None \<and> i < k \<and> k < length (dropna raw) \<and>
       (\<forall>j. i \<le> j \<and> j < k \<longrightarrow> Country (dropna raw ! j) = c \<and> pop (dropna raw ! j) = None) \<and>
       Country (dropna raw ! k) = c \<and> pop (dropna raw ! k) = Some v
       \<longrightarrow> pop (clean_data raw ! i) = Some v)"
proof -
  define ds where "ds = dropna raw"
  define col where "col = groupby_ffill ds"
  have len: "length col = length ds" by (simp add: col_def)
  have out: "pop (clean_data raw ! i) = bfill col ! i"
    using i by (simp add: clean_data_pop_nth ds_def col_def)
  have col_nth: "col ! j = last_known (Country (ds ! j)) (take (Suc j) ds)"
    if "j < length ds" for j
    using that by (simp add: col_def groupby_ffill_nth)
  have i': "i < length ds" using i by (simp add: ds_def)
  have c': "Country (ds ! i) = c" using c by (simp add: ds_def)
  have 1: "bfill col ! i \<noteq> None"
  proof -
    from known obtain k where k: "k < length ds" "Country (ds ! k) = c" "pop (ds ! k) \<noteq> None"
      by (auto simp: ds_def)
    show ?thesis
    proof (cases "k \<le> i")
      case True
      with k i' have "last_known c (take (Suc i) ds) \<noteq> None"
        by (simp add: last_known_prefix_known [where k = k])
      with i' c' have "col ! i \<noteq> None" by (simp add: col_nth)
      with i' len show ?thesis by (simp add: bfill_known_later [where k = i])
    next
      case False
      from k have "last_known c (take (Suc k) ds) \<noteq> None"
        by (simp add: last_known_prefix_known [where k = k])
      with k have "col ! k \<noteq> None" by (simp add: col_nth)
      with False k len show ?thesis by (simp add: bfill_known_later [where k = k])
    qed
  qed
  have 2: "bfill col ! i = Some v" if "last_known c (take (Suc i) ds) = Some v" for v
  proof -
    from that i' c' have "col ! i = Some v" by (simp add: col_nth)
    with i' len show ?thesis by (simp add: bfill_keeps_known)
  qed
  have 3: "bfill col ! i = Some v"
    if none: "last_known c (take (Suc i) ds) = None" and ik: "i < k" and k: "k < length ds"
      and between: "\<forall>j. i \<le> j \<and> j < k \<longrightarrow> Country (ds ! j) = c \<and> pop (ds ! j) = None"
      and ck: "Country (ds ! k) = c" and pk: "pop (ds ! k) = Some v" for k v
  proof -
    have "col ! k = Some v"
      using k pk by (simp add: col_nth last_known_take_Suc_known)
    moreover have "\<forall>j. i \<le> j \<and> j < k \<longrightarrow> col ! j = None"
    proof (intro allI impI)
      fix j assume j: "i \<le> j \<and> j < k"
      with k have jl: "j < length ds" by simp
      from between j have "\<forall>m. i < m \<and> m \<le> j \<longrightarrow> pop (ds ! m) = None" by simp
      with none j jl have "last_known c (take (Suc j) ds) = None"
        by (simp add: last_known_stays_None [where i = i])
      with between j jl show "col ! j = None" by (simp add: col_nth)
    qed
    ultimately show ?thesis
      using ik k len by (simp add: bfill_first_later [where k = k])
  qed
  from 1 2 3 show ?thesis
    unfolding out ds_def [symmetric] by blast
qed

theorem pop_filled_in_row_order_witness:
  "(0::nat) < length (dropna table_fill) \<and>
   ''B'' = Country (dropna table_fill ! 0) \<and>
   (\<exists>k < length (dropna table_fill).
      Country (dropna table_fill ! k) = ''B'' \<and> pop (dropna table_fill ! k) \<noteq> None) \<and>
   last_known ''B'' (take (Suc 0) (dropna table_fill)) = None \<and>
   pop (dropna table_fill ! 1) = Some 100 \<and>
   pop (clean_data table_fill ! 0) = Some 100 \<and>
   last_known ''B'' (take (Suc 2) (dropna table_fill)) = Some 100 \<and>
   pop (clean_data table_fill ! 2) = Some 100"
proof -
  have d: "dropna table_fill =
     [example_row ''B'' 1964 (Some 5) (Some 60) None (Some ''b''),
      example_row ''B'' 1965 (Some 5) (Some 61) (Some 100) None,
      example_row ''B'' 1966 (Some 4) (Some 62) None (Some ''b'')]"
    by (simp add: dropna_def table_fill_def example_row_def)
  have i0: "0 < length (dropna table_fill)" and i2: "2 < length (dropna table_fill)"
    and i1: "1 < length (dropna table_fill)"
    by (simp_all add: d)
  have c0: "''B'' = Country (dropna table_fill ! 0)"
    and c2: "''B'' = Country (dropna table_fill ! 2)"
    by (simp_all add: d example_row_def)
  have r1: "Country (dropna table_fill ! 1) = ''B''" "pop (dropna table_fill ! 1) = Some 100"
    by (simp_all add: d example_row_def)
  have kn: "\<exists>k < length (dropna table_fill).
      Country (dropna table_fill ! k) = ''B'' \<and> pop (dropna table_fill ! k) \<noteq> None"
    using i1 r1 by (intro exI [of _ 1]) simp
  have n0: "last_known ''B'' (take (Suc 0) (dropna table_fill)) = None"
    by (simp add: d example_row_def)
  have bw: "\<forall>j. 0 \<le> j \<and> j < 1 \<longrightarrow>
      Country (dropna table_fill ! j) = ''B'' \<and> pop (dropna table_fill ! j) = None"
    by (simp add: d example_row_def)
  have f2: "last_known ''B'' (take (Suc 2) (dropna table_fill)) = Some 100"
    by (simp add: d example_row_def)
  from pop_filled_in_row_order [OF i0 c0 kn]
  have "last_known ''B'' (take (Suc 0) (dropna table_fill)) = None \<and> 0 < (1::nat) \<and>
        1 < length (dropna table_fill) \<and>
        (\<forall>j. 0 \<le> j \<and> j < 1 \<longrightarrow>
           Country (dropna table_fill ! j) = ''B'' \<and> pop (dropna table_fill ! j) = None) \<and>
        Country (dropna table_fill ! 1) = ''B'' \<and> pop (dropna table_fill ! 1) = Some 100
        \<longrightarrow> pop (clean_data table_fill ! 0) = Some 100"
    by blast
  with n0 i1 bw r1 have filled0: "pop (clean_data table_fill ! 0) = Some 100" by simp
  from pop_filled_in_row_order [OF i2 c2 kn] f2
  have filled2: "pop (clean_data table_fill ! 2) = Some 100" by blast
  from i0 c0 kn n0 r1 filled0 f2 filled2 show ?thesis by simp
qed

text \<open>
  C2, as stated, fails: the group is filled in table order, not in Year order. In
  \<open>table_unsorted\<close> the row of 1965 comes after the row of 1966 and takes its
  value 1, where the last earlier known value by Year is the 2 of 1964.
\<close>

theorem year_order_counterexample:
  "map Year (clean_data table_unsorted) = [1964, 1966, 1965] \<and>
   map pop (dropna table_unsorted) = [Some 2, Some 1, None] \<and>
   map pop (clean_data table_unsorted) = [Some 2, Some 1, Some 1] \<and>
   map pop (sort_key Year (group_of ''A'' (clean_data table_unsorted))) = [Some 2, Some 1, Some 1] \<and>
   spec_fill_group (group_of ''A'' (dropna table_unsorted)) = [Some 2, Some 2, Some 1] \<and>
   map pop (sort_key Year (group_of ''A'' (clean_data table_unsorted))) \<noteq>
     spec_fill_group (group_of ''A'' (dropna table_unsorted))"
  by (simp add: clean_data_unfold dropna_def groupby_ffill_def assign_pop_def
      fillna_ID_def table_unsorted_def example_row_def group_of_def spec_fill_group_def)

text \<open>
  C4: no row of the cleaned table has a missing \<^verbatim>\<open>Fertility\<close> or a missing
  \<^verbatim>\<open>lifeExp\<close>, and the cleaned table has as many rows as the input has rows with
  neither cell missing: every row with one of them missing is dropped, none is kept
  with a placeholder.
\<close>

theorem dropna_essentials:
  "(\<forall>r \<in> set (clean_data raw). Fertility r \<noteq> None \<and> lifeExp r \<noteq> None) \<and>
   length (clean_data raw) =
     length (filter (\<lambda>r. \<not> (Fertility r = None \<or> lifeExp r = None)) raw)"
proof
  show "\<forall>r \<in> set (clean_data raw). Fertility r \<noteq> None \<and> lifeExp r \<noteq> None"
  proof
    fix r assume "r \<in> set (clean_data raw)"
    then obtain i where i: "i < length (dropna raw)" and r: "r = clean_data raw ! i"
      by (auto simp: in_set_conv_nth length_clean_data)
    from i have "dropna raw ! i \<in> set (dropna raw)" by simp
    then have "lifeExp (dropna raw ! i) \<noteq> None \<and> Fertility (dropna raw ! i) \<noteq> None"
      by (simp add: set_dropna)
    with i r show "Fertility r \<noteq> None \<and> lifeExp r \<noteq> None"
      by (simp add: clean_data_frame_nth)
  qed
next
  have "(\<lambda>r::'a row. lifeExp r \<noteq> None \<and> Fertility r \<noteq> None) =
        (\<lambda>r. \<not> (Fertility r = None \<or> lifeExp r = None))"
    by auto
  then show "length (clean_data raw) =
     length (filter (\<lambda>r. \<not> (Fertility r = None \<or> lifeExp r = None)) raw)"
    by (simp add: length_clean_data dropna_def)
qed

theorem dropna_essentials_witness:
  "example_row ''A'' 1964 (Some 3) (Some 60) (Some 10) (Some ''Unknown'')
     \<in> set (clean_data table_dropped) \<and>
   Fertility (example_row ''A'' 1964 (Some 3) (Some 60) (Some 10) (Some ''Unknown'')) \<noteq> None \<and>
   lifeExp (example_row ''A'' 1964 (Some 3) (Some 60) (Some 10) (Some ''Unknown'')) \<noteq> None \<and>
   length (clean_data table_dropped) = 1"
proof -
  have "clean_data table_dropped =
     [example_row ''A'' 1964 (Some 3) (Some 60) (Some 10) (Some ''Unknown'')]"
    by (simp add: clean_data_unfold dropna_def groupby_ffill_def assign_pop_def
        fillna_ID_def table_dropped_def example_row_def)
  then have m: "example_row ''A'' 1964 (Some 3) (Some 60) (Some 10) (Some ''Unknown'')
     \<in> set (clean_data table_dropped)"
    by simp
  have l: "length (filter (\<lambda>r. \<not> (Fertility r = None \<or> lifeExp r = None)) table_dropped) = 1"
    by (simp add: table_dropped_def example_row_def)
  from dropna_essentials [of table_dropped] m l show ?thesis by auto
qed

text \<open>
  C5: after cleaning no row has a missing \<^verbatim>\<open>ID\<close>: a retained row whose \<^verbatim>\<open>ID\<close> was
  missing has exactly \<open>''Unknown''\<close>, a retained row with an \<^verbatim>\<open>ID\<close> keeps it.
\<close>

theorem ID_filled:
  "length (clean_data raw) = length (dropna raw) \<and>
   (\<forall>i < length (clean_data raw).
      ID (clean_data raw ! i) \<noteq> None \<and>
      (ID (dropna raw ! i) = None \<longrightarrow> ID (clean_data raw ! i) = Some ''Unknown'') \<and>
      (\<forall>s. ID (dropna raw ! i) = Some s \<longrightarrow> ID (clean_data raw ! i) = Some s))"
  by (simp add: length_clean_data clean_data_ID_nth)

theorem ID_filled_witness:
  "length (clean_data table_fill) = 3 \<and>
   ID (dropna table_fill ! 1) = None \<and> ID (clean_data table_fill ! 1) = Some ''Unknown'' \<and>
   ID (dropna table_fill ! 0) = Some ''b'' \<and> ID (clean_data table_fill ! 0) = Some ''b''"
proof -
  have d: "dropna table_fill = table_fill"
    by (simp add: dropna_def table_fill_def example_row_def)
  have i: "ID (table_fill ! 1) = None" "ID (table_fill ! 0) = Some ''b''"
    by (simp_all add: table_fill_def example_row_def)
  have l: "length table_fill = 3" by (simp add: table_fill_def)
  from ID_filled [of table_fill] d i l show ?thesis by simp
qed

text \<open>
  C6, as amended: \<^verbatim>\<open>load_data\<close> fails in exactly two cases, and in both returns no
  table. When \<^verbatim>\<open>pd.read_csv\<close> fails, it fails with the very exception
  \<^verbatim>\<open>pd.read_csv\<close> raised. When the table that was read lacks one of the columns
  \<^verbatim>\<open>lifeExp\<close>, \<^verbatim>\<open>Fertility\<close>, \<^verbatim>\<open>Country\<close>, \<^verbatim>\<open>pop\<close>, \<^verbatim>\<open>ID\<close>, it fails with
  \<^verbatim>\<open>KeyError\<close>. The program defines no \<^verbatim>\<open>DataLoadError\<close> and wraps nothing. The
  content of the rows never makes it fail: with the five columns there it returns
  the cleaned table, and a row whose \<^verbatim>\<open>Fertility\<close> and \<^verbatim>\<open>lifeExp\<close> cells are present,
  whatever they hold, is retained with these cells as they were read.
\<close>

theorem load_data_fails_iff:
  "(load_data read_csv filepath = Inl e \<longleftrightarrow>
      read_csv filepath = Inl e \<or>
      (\<exists>df. read_csv filepath = Inr df \<and> \<not> set required_columns \<subseteq> set (header df) \<and>
         e = Exn ''KeyError'')) \<and>
   (\<forall>df. read_csv filepath = Inr df \<and> set required_columns \<subseteq> set (header df) \<longrightarrow>
      load_data read_csv filepath = Inr (df\<lparr>rows := clean_data (rows df)\<rparr>) \<and>
      (\<forall>r \<in> set (rows df). Fertility r \<noteq> None \<and> lifeExp r \<noteq> None \<longrightarrow>
         (\<exists>r' \<in> set (clean_data (rows df)).
            Country r' = Country r \<and> Region r' = Region r \<and> Year r' = Year r \<and>
            Fertility r' = Fertility r \<and> lifeExp r' = lifeExp r)))"
proof (intro conjI allI impI)
  show "load_data read_csv filepath = Inl e \<longleftrightarrow>
      read_csv filepath = Inl e \<or>
      (\<exists>df. read_csv filepath = Inr df \<and> \<not> set required_columns \<subseteq> set (header df) \<and>
         e = Exn ''KeyError'')"
    by (cases "read_csv filepath") (auto simp: load_data_def required_columns_def)
next
  fix df
  assume "read_csv filepath = Inr df \<and> set required_columns \<subseteq> set (header df)"
  then show "load_data read_csv filepath = Inr (df\<lparr>rows := clean_data (rows df)\<rparr>)"
    by (simp add: load_data_def required_columns_def)
next
  fix df
  show "\<forall>r \<in> set (rows df). Fertility r \<noteq> None \<and> lifeExp r \<noteq> None \<longrightarrow>
         (\<exists>r' \<in> set (clean_data (rows df)).
            Country r' = Country r \<and> Region r' = Region r \<and> Year r' = Year r \<and>
            Fertility r' = Fertility r \<and> lifeExp r' = lifeExp r)"
    using present_row_retained [of _ "rows df"] by blast
qed

theorem load_data_fails_iff_witness:
  "one_file ''gapminder.csv'' = Inr \<lparr>header = csv_header, rows = table_fill\<rparr> \<and>
   set required_columns \<subseteq> set csv_header \<and>
   load_data one_file ''gapminder.csv'' =
     Inr \<lparr>header = csv_header, rows = clean_data table_fill\<rparr> \<and>
   one_file ''missing.csv'' = Inl (Exn ''FileNotFoundError'') \<and>
   load_data one_file ''missing.csv'' = Inl (Exn ''FileNotFoundError'') \<and>
   \<not> set required_columns \<subseteq>
       set [''Country'', ''Region'', ''Year'', ''Fertility'', ''lifeExp'', ''ID''] \<and>
   load_data file_without_pop ''gapminder.csv'' = Inl (Exn ''KeyError'') \<and>
   malformed_file ''gapminder.csv'' = Inr \<lparr>header = csv_header, rows = table_malformed\<rparr> \<and>
   hd table_malformed \<in> set table_malformed \<and>
   Fertility (hd table_malformed) = Some (Text ''abc'') \<and>
   lifeExp (hd table_malformed) = Some (Num 60) \<and>
   (\<exists>r' \<in> set (clean_data table_malformed).
      Fertility r' = Some (Text ''abc'') \<and> lifeExp r' = Some (Num 60))"
proof -
  have a: "one_file ''gapminder.csv'' = Inr \<lparr>header = csv_header, rows = table_fill\<rparr>"
    and b: "one_file ''missing.csv'' = Inl (Exn ''FileNotFoundError'')"
    by (simp_all add: one_file_def)
  have h: "set required_columns \<subseteq> set csv_header"
    by (simp add: required_columns_def csv_header_def)
  from load_data_fails_iff [of one_file "''gapminder.csv''"] a h
  have 1: "load_data one_file ''gapminder.csv'' =
      Inr \<lparr>header = csv_header, rows = clean_data table_fill\<rparr>"
    by simp
  from load_data_fails_iff [of one_file "''missing.csv''" "Exn ''FileNotFoundError''"] b
  have 2: "load_data one_file ''missing.csv'' = Inl (Exn ''FileNotFoundError'')" by simp
  have c: "file_without_pop ''gapminder.csv'' =
      Inr \<lparr>header = [''Country'', ''Region'', ''Year'', ''Fertility'', ''lifeExp'', ''ID''],
           rows = [example_row ''A'' 1964 (Some 5) (Some 60) None (Some ''a'')]\<rparr>"
    by (simp add: file_without_pop_def)
  have n: "\<not> set required_columns \<subseteq>
       set [''Country'', ''Region'', ''Year'', ''Fertility'', ''lifeExp'', ''ID'']"
    by (simp add: required_columns_def)
  from load_data_fails_iff [of file_without_pop "''gapminder.csv''" "Exn ''KeyError''"] c n
  have 3: "load_data file_without_pop ''gapminder.csv'' = Inl (Exn ''KeyError'')" by simp
  have d: "malformed_file ''gapminder.csv'' = Inr \<lparr>header = csv_header, rows = table_malformed\<rparr>"
    by (simp add: malformed_file_def)
  have m: "hd table_malformed \<in> set table_malformed"
    and f: "Fertility (hd table_malformed) = Some (Text ''abc'')"
    and l: "lifeExp (hd table_malformed) = Some (Num 60)"
    by (simp_all add: table_malformed_def)
  from load_data_fails_iff [of malformed_file "''gapminder.csv''"] d h
  have "\<forall>r \<in> set table_malformed. Fertility r \<noteq> None \<and> lifeExp r \<noteq> None \<longrightarrow>
         (\<exists>r' \<in> set (clean_data table_malformed).
            Country r' = Country r \<and> Region r' = Region r \<and> Year r' = Year r \<and>
            Fertility r' = Fertility r \<and> lifeExp r' = lifeExp r)"
    by simp
  with m f l have 4: "\<exists>r' \<in> set (clean_data table_malformed).
      Fertility r' = Some (Text ''abc'') \<and> lifeExp r' = Some (Num 60)"
    by fastforce
  from a h 1 b 2 n 3 d m f l 4 show ?thesis by simp
qed

text \<open>
  C6, as stated, fails in three ways. For a path that does not exist
  \<^verbatim>\<open>pd.read_csv\<close> raises \<^verbatim>\<open>FileNotFoundError\<close>, and that, not a \<^verbatim>\<open>DataLoadError\<close>, is
  what the caller of \<^verbatim>\<open>load_data\<close> gets. An unreadable path is not the only
  failure: a file that is read but has no column \<^verbatim>\<open>pop\<close> makes \<^verbatim>\<open>load_data\<close> fail
  with \<^verbatim>\<open>KeyError\<close>. And a malformed field is not treated as missing: the row
  whose \<^verbatim>\<open>Fertility\<close> is the text \<^verbatim>\<open>abc\<close> is not dropped, it is returned with that
  text.
\<close>

theorem load_data_missing_file:
  "load_data no_file ''gapminder.csv'' = Inl (Exn ''FileNotFoundError'') \<and>
   load_data no_file ''gapminder.csv'' \<noteq> Inl (Exn ''DataLoadError'') \<and>
   file_without_pop ''gapminder.csv'' =
     Inr \<lparr>header = [''Country'', ''Region'', ''Year'', ''Fertility'', ''lifeExp'', ''ID''],
          rows = [example_row ''A'' 1964 (Some 5) (Some 60) None (Some ''a'')]\<rparr> \<and>
   load_data file_without_pop ''gapminder.csv'' = Inl (Exn ''KeyError'') \<and>
   malformed_file ''gapminder.csv'' = Inr \<lparr>header = csv_header, rows = table_malformed\<rparr> \<and>
   map Fertility table_malformed = [Some (Text ''abc'')] \<and>
   load_data malformed_file ''gapminder.csv'' =
     Inr \<lparr>header = csv_header, rows = table_malformed\<rparr>"
  by (simp add: load_data_def no_file_def file_without_pop_def malformed_file_def
      csv_header_def table_malformed_def clean_data_unfold dropna_def groupby_ffill_def
      assign_pop_def fillna_ID_def)

text \<open>
  C8: \<^verbatim>\<open>load_data\<close> reads nothing but the file at the path it is given: two runs
  that read the same contents there return identical results (the same rows, the
  same cells, the same order).
\<close>

theorem load_data_same_source:
  assumes "read1 filepath = read2 filepath"
  shows "load_data read1 filepath = load_data read2 filepath"
  using assms by (simp add: load_data_def)

theorem load_data_same_source_witness:
  "one_file ''gapminder.csv'' =
     (\<lambda>p. Inr \<lparr>header = csv_header, rows = table_fill\<rparr>) ''gapminder.csv'' \<and>
   load_data one_file ''gapminder.csv'' =
     load_data (\<lambda>p. Inr \<lparr>header = csv_header, rows = table_fill\<rparr>) ''gapminder.csv''"
proof -
  have h: "one_file ''gapminder.csv'' =
     (\<lambda>p. Inr \<lparr>header = csv_header, rows = table_fill\<rparr>) ''gapminder.csv''"
    by (simp add: one_file_def)
  from load_data_same_source [of one_file "''gapminder.csv''"
      "\<lambda>p. Inr \<lparr>header = csv_header, rows = table_fill\<rparr>"] h
  show ?thesis by simp
qed

text \<open>
  C9: the cleaned table is the input table without the dropped rows, in the input's
  order: on the columns that cleaning leaves alone, it is the input filtered.
  Nothing is regrouped or sorted.
\<close>

theorem row_order_kept:
  "map (\<lambda>r. (Country r, Region r, Year r, Fertility r, lifeExp r)) (clean_data raw) =
   map (\<lambda>r. (Country r, Region r, Year r, Fertility r, lifeExp r))
     (filter (\<lambda>r. lifeExp r \<noteq> None \<and> Fertility r \<noteq> None) raw)"
  by (simp add: clean_data_untouched_columns dropna_def)

text \<open>
  C10: in every retained row the cells \<^verbatim>\<open>Country\<close>, \<^verbatim>\<open>Region\<close>, \<^verbatim>\<open>Year\<close>,
  \<^verbatim>\<open>Fertility\<close> and \<^verbatim>\<open>lifeExp\<close> are those of the input row.
\<close>

theorem other_fields_unchanged:
  assumes "i < length (clean_data raw)"
  shows "Country (clean_data raw ! i) = Country (dropna raw ! i) \<and>
         Region (clean_data raw ! i) = Region (dropna raw ! i) \<and>
         Year (clean_data raw ! i) = Year (dropna raw ! i) \<and>
         Fertility (clean_data raw ! i) = Fertility (dropna raw ! i) \<and>
         lifeExp (clean_data raw ! i) = lifeExp (dropna raw ! i)"
  using assms by (simp add: length_clean_data clean_data_frame_nth)

theorem other_fields_unchanged_witness:
  "(1::nat) < length (clean_data table_fill) \<and>
   Country (clean_data table_fill ! 1) = ''B'' \<and>
   Region (clean_data table_fill ! 1) = ''Region'' \<and>
   Year (clean_data table_fill ! 1) = 1965 \<and>
   Fertility (clean_data table_fill ! 1) = Some 5 \<and>
   lifeExp (clean_data table_fill ! 1) = Some 61"
proof -
  have d: "dropna table_fill = table_fill"
    by (simp add: dropna_def table_fill_def example_row_def)
  have l: "1 < length (clean_data table_fill)"
    by (simp add: length_clean_data d) (simp add: table_fill_def)
  have r: "table_fill ! Suc 0 = example_row ''B'' 1965 (Some 5) (Some 61) (Some 100) None"
    by (simp add: table_fill_def)
  from other_fields_unchanged [OF l] l show ?thesis
    by (simp add: d r example_row_def)
qed

section \<open>Properties of \<^verbatim>\<open>update_plot\<close>\<close>

text \<open>
  C3: for every table and every year on the slider, the records that
  \<^verbatim>\<open>update_plot\<close> hands to the plot are exactly the rows of the table with that
  Year, in the table's order, and the title is
  \<open>''Life Expectancy vs Fertility in ''\<close> followed by the decimal numeral of the
  year: a string in decimal notation that reads back as the year, and the only
  such string. When no row has that Year the records are empty and the title is
  built all the same.
\<close>

theorem update_plot_view:
  "records (source_data (update_plot attr old new s)) =
     filter (\<lambda>r. Year r = slider_value s) (data s) \<and>
   plot_title_text (update_plot attr old new s) =
     ''Life Expectancy vs Fertility in '' @ str_int (slider_value s) \<and>
   canonical_decimal (str_int (slider_value s)) \<and>
   int_of_decimal (str_int (slider_value s)) = slider_value s \<and>
   (\<forall>t. canonical_decimal t \<and> int_of_decimal t = slider_value s \<longrightarrow>
      t = str_int (slider_value s)) \<and>
   ((\<forall>r \<in> set (data s). Year r \<noteq> slider_value s) \<longrightarrow>
      records (source_data (update_plot attr old new s)) = [])"
proof (intro conjI allI impI)
  show "records (source_data (update_plot attr old new s)) =
     filter (\<lambda>r. Year r = slider_value s) (data s)"
    by (simp add: update_plot_def Let_def records_to_dict_list)
  show "plot_title_text (update_plot attr old new s) =
     ''Life Expectancy vs Fertility in '' @ str_int (slider_value s)"
    by (simp add: update_plot_def Let_def)
  show "canonical_decimal (str_int (slider_value s))"
    by (rule canonical_decimal_str_int)
  show "int_of_decimal (str_int (slider_value s)) = slider_value s"
    by (rule int_of_decimal_str_int)
next
  fix t
  assume "canonical_decimal t \<and> int_of_decimal t = slider_value s"
  then show "t = str_int (slider_value s)"
    using str_int_int_of_decimal [of t] by simp
next
  assume "\<forall>r \<in> set (data s). Year r \<noteq> slider_value s"
  then show "records (source_data (update_plot attr old new s)) = []"
    by (simp add: update_plot_def Let_def records_to_dict_list filter_empty_conv)
qed

theorem update_plot_view_witness:
  "1964 \<notin> set (map Year (data session_no_1964)) \<and>
   slider_value session_no_1964 = 1964 \<and>
   records (source_data (update_plot ''value'' 1965 1964 session_no_1964)) = [] \<and>
   plot_title_text (update_plot ''value'' 1965 1964 session_no_1964) =
     ''Life Expectancy vs Fertility in 1964'' \<and>
   canonical_decimal ''1964'' \<and> int_of_decimal ''1964'' = 1964 \<and>
   ''1964'' = str_int 1964"
proof -
  have n: "1964 \<notin> set (map Year (data session_no_1964))"
    by (simp add: session_no_1964_def example_row_def)
  have y: "slider_value session_no_1964 = 1964"
    by (simp add: session_no_1964_def)
  from n y have h: "\<forall>r \<in> set (data session_no_1964). Year r \<noteq> slider_value session_no_1964"
    by auto
  have c: "canonical_decimal ''1964''"
    by (simp add: canonical_decimal_def canonical_nat_def is_digit_def)
  have i: "int_of_decimal ''1964'' = 1964"
    by (simp add: int_of_decimal_def nat_of_digits_def)
  note T = update_plot_view [of "''value''" 1965 1964 session_no_1964]
  from T c i y have u: "''1964'' = str_int 1964" by simp
  from T h have "records (source_data (update_plot ''value'' 1965 1964 session_no_1964)) = []"
    by blast
  moreover from T y u
  have "plot_title_text (update_plot ''value'' 1965 1964 session_no_1964) =
     ''Life Expectancy vs Fertility in 1964''"
    by simp
  ultimately show ?thesis using n y c i u by simp
qed

text \<open>
  C7: \<^verbatim>\<open>update_plot\<close> leaves the table and the slider as they are; the records and
  the title it writes depend on the table and the year only, not on what the plot
  showed before, so a second call with the same table and year writes the same
  records and the same title.
\<close>

theorem update_plot_pure:
  "data (update_plot attr old new s) = data s \<and>
   slider_value (update_plot attr old new s) = slider_value s \<and>
   update_plot attr' old' new' (update_plot attr old new s) = update_plot attr old new s \<and>
   (\<forall>t. data t = data s \<and> slider_value t = slider_value s \<longrightarrow>
      source_data (update_plot attr' old' new' t) = source_data (update_plot attr old new s) \<and>
      plot_title_text (update_plot attr' old' new' t) =
        plot_title_text (update_plot attr old new s))"
  by (simp add: update_plot_def Let_def)

theorem update_plot_pure_witness:
  "data session_no_1964 = data (example_session\<lparr>data := data session_no_1964\<rparr>) \<and>
   slider_value session_no_1964 = slider_value (example_session\<lparr>data := data session_no_1964\<rparr>) \<and>
   source_data (update_plot ''value'' 1965 1964 session_no_1964) =
     source_data (update_plot ''value'' 1963 1964 (example_session\<lparr>data := data session_no_1964\<rparr>)) \<and>
   plot_title_text (update_plot ''value'' 1965 1964 session_no_1964) =
     plot_title_text (update_plot ''value'' 1963 1964 (example_session\<lparr>data := data session_no_1964\<rparr>)) \<and>
   data (update_plot ''value'' 1963 1964 (example_session\<lparr>data := data session_no_1964\<rparr>)) = data session_no_1964"
proof -
  let ?s = "example_session\<lparr>data := data session_no_1964\<rparr>"
  have h: "data session_no_1964 = data ?s \<and> slider_value session_no_1964 = slider_value ?s"
    by (simp add: session_no_1964_def example_session_def)
  from update_plot_pure [of "''value''" 1963 1964 ?s "''value''" 1965 1964] h
  show ?thesis by simp
qed

end
